theory Spec2Isabelle
  imports Main "HOL-Library.Sublist"
begin

section \<open>The per-file parser of ts-unused-exports (src/parser.ts)\<close>

subsection \<open>JavaScript string primitives used by the parser\<close>

text \<open>
  A JavaScript string is modelled as a \<^typ>\<open>string\<close>, one \<^typ>\<open>char\<close> per code unit.
  The backslash has no literal form here and is written by its code.
\<close>

definition backslash :: char where
  "backslash = CHR 0x5C"

text \<open>
  \<^verbatim>\<open>s.indexOf(t)\<close>: the index of the first occurrence of \<open>t\<close> in \<open>s\<close>, or \<open>-1\<close>.
\<close>

fun indexOf_from :: "string \<Rightarrow> string \<Rightarrow> nat \<Rightarrow> int" where
  "indexOf_from [] t i = (if t = [] then int i else - 1)"
| "indexOf_from (c # cs) t i =
     (if prefix t (c # cs) then int i else indexOf_from cs t (Suc i))"

definition indexOf :: "string \<Rightarrow> string \<Rightarrow> int" where
  "indexOf s t = indexOf_from s t 0"

text \<open>
  \<^verbatim>\<open>s.substring(a, b)\<close> for non-negative arguments: both are clamped to the length and
  swapped when \<open>a > b\<close>.
\<close>

definition substring :: "string \<Rightarrow> nat \<Rightarrow> nat \<Rightarrow> string" where
  "substring s a b =
     (let a' = min a (length s); b' = min b (length s);
          lo = min a' b'; hi = max a' b'
      in take (hi - lo) (drop lo s))"

text \<open>
  \<^verbatim>\<open>s.substr(0, n)\<close> for an integer \<open>n\<close>: a negative length gives the empty string.
\<close>

definition substr0 :: "string \<Rightarrow> int \<Rightarrow> string" where
  "substr0 s n = (if n \<le> 0 then [] else take (nat n) s)"

subsection \<open>extractFilename\<close>

text \<open>
  The regular expression \<^verbatim>\<open>/([\\/]index)?\.[^.]*$/\<close> of \<open>extractFilename\<close>.
  \<open>match_ext t\<close> is \<^verbatim>\<open>\.[^.]*$\<close> anchored at the start of \<open>t\<close>: a dot followed by
  characters other than a dot up to the end of the input. \<open>match_index_ext t\<close> is the
  whole expression anchored at the start of \<open>t\<close>: the optional group is tried first,
  then skipped.
\<close>

definition match_ext :: "string \<Rightarrow> bool" where
  "match_ext t = (case t of [] \<Rightarrow> False | c # r \<Rightarrow> c = CHR ''.'' \<and> CHR ''.'' \<notin> set r)"

definition match_index_ext :: "string \<Rightarrow> bool" where
  "match_index_ext t =
     (((prefix (CHR ''/'' # ''index'') t \<or> prefix (backslash # ''index'') t)
        \<and> match_ext (drop 6 t))
      \<or> match_ext t)"

text \<open>
  \<^verbatim>\<open>s.replace(/([\\/]index)?\.[^.]*$/, '')\<close>: the expression is not global, so the
  leftmost match is replaced. Start positions are tried from the left; a match always
  runs to the end of the input, so replacing it by the empty string cuts the input at the
  first position where the expression matches. Without a match the input is returned.
\<close>

fun replace_index_ext :: "string \<Rightarrow> string" where
  "replace_index_ext [] = []"
| "replace_index_ext (c # cs) =
     (if match_index_ext (c # cs) then [] else c # replace_index_ext cs)"

text \<open>\<^verbatim>\<open>name.match(/\.d$/)\<close> is non-null exactly when \<open>name\<close> ends in \<open>.d\<close>.\<close>

definition match_dot_d :: "string \<Rightarrow> bool" where
  "match_dot_d name = suffix ''.d'' name"

text \<open>
  \<open>relative\<close> is \<^verbatim>\<open>path.relative\<close> of the Node.js runtime, a parameter of the model.
\<close>

definition extractFilename ::
  "(string \<Rightarrow> string \<Rightarrow> string) \<Rightarrow> string \<Rightarrow> string \<Rightarrow> string" where
  "extractFilename relative rootDir path =
     (let name = replace_index_ext (relative rootDir path)
      in if match_dot_d name then substr0 name (int (length name) - 2) else name)"

subsection \<open>Data model\<close>

text \<open>
  The syntax kinds of the TypeScript compiler that the parser tests for, as node kinds
  and as modifier kinds; every other kind is \<open>OtherKind\<close> with its number.
\<close>

datatype SyntaxKind =
    ImportDeclaration
  | ExportAssignment
  | ExportDeclaration
  | ExportKeyword
  | DefaultKeyword
  | OtherKind nat

text \<open>
  A syntax node as the parser reads it: its kind, the kinds of its modifiers (absent when
  the node has no modifier array), the position \<^verbatim>\<open>getFullStart()\<close>, the text of the
  module specifier of an export declaration, the text of the declared name, the span of
  the node and its source text, which the extractors inspect.
\<close>

record Node =
  kind :: SyntaxKind
  modifiers :: "SyntaxKind list option"
  fullStart :: nat
  moduleSpecifier :: "string option"
  name :: "string option"
  nodeSpan :: "nat \<times> nat"
  nodeText :: string

text \<open>
  A source file: its full text and the children that \<^verbatim>\<open>ts.forEachChild\<close> visits, in
  source order.
\<close>

record SourceFile =
  fullText :: string
  children :: "Node list"

text \<open>
  \<open>what\<close> of a \<open>FromWhat\<close> is either the constant \<open>star\<close> of parser.common or an array
  of names; the parser tells them apart by reference (\<^verbatim>\<open>what == star\<close>), so \<open>Star\<close> is
  that one array and \<open>Names\<close> any other.
\<close>

datatype What = Star | Names "string list"

record FromWhat =
  fromSpecifier :: string
  what :: What

text \<open>
  Modelled from the spec: types.ts is not under src/. The spec has a \<open>LocationInFile\<close>
  hold a name and a source span, and \<open>Imports\<close> map a resolved module key to what is
  imported from it. The fields of \<open>File\<close>, \<open>TsConfig\<close> and the options are those that
  parser.ts reads and writes.
\<close>

record LocationInFile =
  locName :: string
  locSpan :: "nat \<times> nat"

type_synonym Imports = "string \<rightharpoonup> string list"

type_synonym TsConfigPaths = "(string \<times> string list) list"

type_synonym MatchPath = "string \<Rightarrow> string option"

record File =
  path :: string
  fullPath :: string
  "imports" :: Imports
  exports :: "string list"
  exportLocations :: "LocationInFile list"

record TsConfig =
  baseUrl :: "string option"
  files :: "string list"
  paths :: "TsConfigPaths option"

record ExtraCommandLineOptions =
  excludeDeclarationFiles :: "bool option"

text \<open>
  What the source can throw: the file cannot be read, the text cannot be parsed, or a
  property of \<^verbatim>\<open>undefined\<close> is read.
\<close>

datatype error = FileReadError | ParseError | TypeError

text \<open>
  The collaborators outside src/parser.ts, as parameters: \<^verbatim>\<open>path.relative\<close>,
  \<^verbatim>\<open>path.resolve\<close> and \<^verbatim>\<open>fs.readFileSync\<close> of Node.js,
  \<^verbatim>\<open>ts.createSourceFile\<close> and \<^verbatim>\<open>ts.getLeadingCommentRanges\<close> of the TypeScript
  compiler, \<^verbatim>\<open>createMatchPath\<close> of tsconfig-paths, and the extractors of
  parser.import, parser.export and parser.dynamic. \<open>addImportCore\<close> returns the key
  (or \<^verbatim>\<open>undefined\<close>) and the \<open>imports\<close> object it has updated. \<open>dynamicImports\<close>
  gives the descriptors that the scan of parser.dynamic finds in a node.
\<close>

record Externals =
  relative :: "string \<Rightarrow> string \<Rightarrow> string"
  resolve :: "string \<Rightarrow> string \<Rightarrow> string"
  readFileSync :: "string \<Rightarrow> error + string"
  createSourceFile :: "string \<Rightarrow> string \<Rightarrow> error + SourceFile"
  getLeadingCommentRanges :: "string \<Rightarrow> nat \<Rightarrow> (nat \<times> nat) list option"
  createMatchPath :: "string \<Rightarrow> TsConfigPaths \<Rightarrow> MatchPath"
  extractImport :: "Node \<Rightarrow> FromWhat"
  extractExportStatement :: "Node \<Rightarrow> string list"
  extractExportFromImport :: "Node \<Rightarrow> string \<Rightarrow> FromWhat"
  extractExport :: "string \<Rightarrow> Node \<Rightarrow> string"
  mayContainDynamicImports :: "Node \<Rightarrow> bool"
  dynamicImports :: "Node \<Rightarrow> FromWhat list"
  addImportCore ::
    "FromWhat \<Rightarrow> string \<Rightarrow> string \<Rightarrow> Imports \<Rightarrow> MatchPath option \<Rightarrow> string option
       \<Rightarrow> string option \<Rightarrow> string option \<times> Imports"

subsection \<open>JavaScript truthiness\<close>

definition truthy_string :: "string option \<Rightarrow> bool" where
  "truthy_string v = (case v of None \<Rightarrow> False | Some s \<Rightarrow> s \<noteq> [])"

definition truthy_bool :: "bool option \<Rightarrow> bool" where
  "truthy_bool v = (case v of None \<Rightarrow> False | Some b \<Rightarrow> b)"

subsection \<open>hasModifier and isNodeDisabledViaComment\<close>

definition hasModifier :: "Node \<Rightarrow> SyntaxKind \<Rightarrow> bool option" where
  "hasModifier node modKind =
     (case modifiers node of
        None \<Rightarrow> None
      | Some ms \<Rightarrow> Some (length (filter (\<lambda>m. m = modKind) ms) > 0))"

definition directive :: string where
  "directive = ''// ts-unused-exports:disable-next-line''"

text \<open>
  The last comment range is read at index \<open>length - 1\<close>; on an empty array that is
  \<^verbatim>\<open>undefined\<close> and reading its \<open>pos\<close> throws.
\<close>

definition isNodeDisabledViaComment :: "Externals \<Rightarrow> Node \<Rightarrow> SourceFile \<Rightarrow> error + bool" where
  "isNodeDisabledViaComment ext node file =
     (case getLeadingCommentRanges ext (fullText file) (fullStart node) of
        None \<Rightarrow> Inr False
      | Some comments \<Rightarrow>
          (case comments of
             [] \<Rightarrow> Inl TypeError
           | _ # _ \<Rightarrow>
               (case last comments of
                  (pos, end_pos) \<Rightarrow>
                    if substring (fullText file) pos end_pos = directive then Inr True
                    else Inr False)))"

subsection \<open>mapFile\<close>

text \<open>
  The three accumulators of \<open>mapFile\<close> (\<open>imports\<close>, \<open>exports\<close>, \<open>exportLocations\<close>),
  and the values its closures \<open>addImport\<close> and \<open>addExport\<close> capture.
\<close>

record MapState =
  st_imports :: Imports
  st_exports :: "string list"
  st_exportLocations :: "LocationInFile list"

record Closure =
  c_rootDir :: string
  c_path :: string
  c_file :: SourceFile
  c_baseUrl :: "string option"
  c_tsconfigPathsMatcher :: "MatchPath option"
  c_baseDir :: "string option"

text \<open>
  Modelled from the spec: \<open>addExportCore\<close> of parser.export is not under src/. The spec
  has an export appended to \<open>exports\<close> together with its location, a \<open>LocationInFile\<close>
  of the name and the span, appended to \<open>exportLocations\<close>.
\<close>

definition addExportCore ::
  "string \<Rightarrow> SourceFile \<Rightarrow> Node \<Rightarrow> LocationInFile list \<Rightarrow> string list
     \<Rightarrow> LocationInFile list \<times> string list" where
  "addExportCore exportName file node exportLocs exps =
     (exportLocs @ [\<lparr>locName = exportName, locSpan = nodeSpan node\<rparr>], exps @ [exportName])"

definition addImport ::
  "Externals \<Rightarrow> Closure \<Rightarrow> FromWhat \<Rightarrow> MapState \<Rightarrow> string option \<times> MapState" where
  "addImport ext c fw st =
     (case addImportCore ext fw (c_rootDir c) (c_path c) (st_imports st)
             (c_tsconfigPathsMatcher c) (c_baseDir c) (c_baseUrl c) of
        (key, imports') \<Rightarrow> (key, st\<lparr>st_imports := imports'\<rparr>))"

definition addExport :: "Closure \<Rightarrow> string \<Rightarrow> Node \<Rightarrow> MapState \<Rightarrow> MapState" where
  "addExport c exportName node st =
     (case addExportCore exportName (c_file c) node (st_exportLocations st) (st_exports st) of
        (exportLocs', exps') \<Rightarrow>
          st\<lparr>st_exports := exps', st_exportLocations := exportLocs'\<rparr>)"

text \<open>
  Modelled from the spec: \<open>addDynamicImports\<close> of parser.dynamic is not under src/. The
  spec has the scan register every dynamic import it finds through \<open>addImport\<close>.
\<close>

definition addDynamicImports ::
  "Externals \<Rightarrow> Node \<Rightarrow> (FromWhat \<Rightarrow> MapState \<Rightarrow> string option \<times> MapState)
     \<Rightarrow> MapState \<Rightarrow> MapState" where
  "addDynamicImports ext node addImp st =
     fold (\<lambda>fw s. snd (addImp fw s)) (dynamicImports ext node) st"

text \<open>The branches of the callback given to \<^verbatim>\<open>ts.forEachChild\<close>, each as the source has it.\<close>

definition importBranch :: "Externals \<Rightarrow> Closure \<Rightarrow> Node \<Rightarrow> MapState \<Rightarrow> MapState" where
  "importBranch ext c node st = snd (addImport ext c (extractImport ext node) st)"

definition exportAssignmentBranch :: "Closure \<Rightarrow> Node \<Rightarrow> MapState \<Rightarrow> MapState" where
  "exportAssignmentBranch c node st = addExport c ''default'' node st"

definition exportStatementBranch ::
  "Externals \<Rightarrow> Closure \<Rightarrow> Node \<Rightarrow> MapState \<Rightarrow> MapState" where
  "exportStatementBranch ext c node st =
     fold (\<lambda>e s. addExport c e node s) (extractExportStatement ext node) st"

definition exportFromBranch ::
  "Externals \<Rightarrow> Closure \<Rightarrow> Node \<Rightarrow> string \<Rightarrow> MapState \<Rightarrow> MapState" where
  "exportFromBranch ext c node specifier st =
     (let fw = extractExportFromImport ext node specifier
      in case addImport ext c fw st of
           (key, st1) \<Rightarrow>
             (case key of
                None \<Rightarrow> st1
              | Some k \<Rightarrow>
                  if k \<noteq> [] then
                    (case what fw of
                       Star \<Rightarrow> addExport c (''*:'' @ k) node st1
                     | Names ws \<Rightarrow> st1\<lparr>st_exports := st_exports st1 @ ws\<rparr>)
                  else st1))"

definition dynamicImportsBranch ::
  "Externals \<Rightarrow> Closure \<Rightarrow> Node \<Rightarrow> MapState \<Rightarrow> MapState" where
  "dynamicImportsBranch ext c node st = addDynamicImports ext node (addImport ext c) st"

definition exportModifierBranch ::
  "Externals \<Rightarrow> Closure \<Rightarrow> Node \<Rightarrow> MapState \<Rightarrow> MapState" where
  "exportModifierBranch ext c node st =
     (if truthy_bool (hasModifier node DefaultKeyword) then addExport c ''default'' node st
      else
        (let nm = (case name node of
                     Some t \<Rightarrow> t
                   | None \<Rightarrow> extractExport ext (c_path c) node)
         in if nm \<noteq> [] then addExport c nm node st else st))"

text \<open>The body of the callback after the directive check.\<close>

definition extractNode :: "Externals \<Rightarrow> Closure \<Rightarrow> Node \<Rightarrow> MapState \<Rightarrow> MapState" where
  "extractNode ext c node st =
     (if kind node = ImportDeclaration then importBranch ext c node st
      else if kind node = ExportAssignment then exportAssignmentBranch c node st
      else if kind node = ExportDeclaration then
        (case moduleSpecifier node of
           None \<Rightarrow> exportStatementBranch ext c node st
         | Some specifier \<Rightarrow> exportFromBranch ext c node specifier st)
      else
        (let st1 = (if mayContainDynamicImports ext node
                    then dynamicImportsBranch ext c node st else st)
         in if truthy_bool (hasModifier node ExportKeyword)
            then exportModifierBranch ext c node st1 else st1))"

text \<open>
  The branches of the callback as labels, and the callback's dispatch as the list of the
  branches it runs for a node: the same tests in the same order as \<open>extractNode\<close>, with
  each \<^verbatim>\<open>return\<close> ending the list.
\<close>

datatype Branch =
    PlainImport
  | ExportByAssignment
  | ExportWithoutSpecifier
  | ExportWithSpecifier string
  | DynamicImportScan
  | ExportModifier

definition branchesTaken :: "Externals \<Rightarrow> Node \<Rightarrow> Branch list" where
  "branchesTaken ext node =
     (if kind node = ImportDeclaration then [PlainImport]
      else if kind node = ExportAssignment then [ExportByAssignment]
      else if kind node = ExportDeclaration then
        (case moduleSpecifier node of
           None \<Rightarrow> [ExportWithoutSpecifier]
         | Some specifier \<Rightarrow> [ExportWithSpecifier specifier])
      else
        (if mayContainDynamicImports ext node then [DynamicImportScan] else [])
        @ (if truthy_bool (hasModifier node ExportKeyword) then [ExportModifier] else []))"

fun runBranch :: "Externals \<Rightarrow> Closure \<Rightarrow> Node \<Rightarrow> Branch \<Rightarrow> MapState \<Rightarrow> MapState" where
  "runBranch ext c node PlainImport = importBranch ext c node"
| "runBranch ext c node ExportByAssignment = exportAssignmentBranch c node"
| "runBranch ext c node ExportWithoutSpecifier = exportStatementBranch ext c node"
| "runBranch ext c node (ExportWithSpecifier specifier) = exportFromBranch ext c node specifier"
| "runBranch ext c node DynamicImportScan = dynamicImportsBranch ext c node"
| "runBranch ext c node ExportModifier = exportModifierBranch ext c node"

fun classifying :: "Branch \<Rightarrow> bool" where
  "classifying PlainImport = True"
| "classifying ExportByAssignment = True"
| "classifying ExportWithoutSpecifier = True"
| "classifying (ExportWithSpecifier specifier) = True"
| "classifying DynamicImportScan = False"
| "classifying ExportModifier = False"

definition visitNode :: "Externals \<Rightarrow> Closure \<Rightarrow> Node \<Rightarrow> MapState \<Rightarrow> error + MapState" where
  "visitNode ext c node st =
     (case isNodeDisabledViaComment ext node (c_file c) of
        Inl e \<Rightarrow> Inl e
      | Inr disabled \<Rightarrow> if disabled then Inr st else Inr (extractNode ext c node st))"

text \<open>
  \<^verbatim>\<open>ts.forEachChild\<close> with a callback that returns nothing: every child is visited in
  order, and an exception in the callback ends the walk.
\<close>

fun forEachChild ::
  "(Node \<Rightarrow> MapState \<Rightarrow> error + MapState) \<Rightarrow> Node list \<Rightarrow> MapState \<Rightarrow> error + MapState" where
  "forEachChild f [] st = Inr st"
| "forEachChild f (n # ns) st =
     (case f n st of Inl e \<Rightarrow> Inl e | Inr st' \<Rightarrow> forEachChild f ns st')"

definition initialState :: MapState where
  "initialState = \<lparr>st_imports = Map.empty, st_exports = [], st_exportLocations = []\<rparr>"

definition makeClosure ::
  "Externals \<Rightarrow> string \<Rightarrow> string \<Rightarrow> SourceFile \<Rightarrow> string option \<Rightarrow> TsConfigPaths option
     \<Rightarrow> Closure" where
  "makeClosure ext rootDir pth file bUrl pths =
     (let baseDir = (case bUrl of
                       None \<Rightarrow> None
                     | Some b \<Rightarrow> if b = [] then Some [] else Some (resolve ext rootDir b));
          tsconfigPathsMatcher =
            (case baseDir of
               None \<Rightarrow> None
             | Some d \<Rightarrow>
                 if d \<noteq> [] then
                   (case pths of
                      None \<Rightarrow> None
                    | Some ps \<Rightarrow> Some (createMatchPath ext d ps))
                 else None)
      in \<lparr>c_rootDir = rootDir, c_path = pth, c_file = file, c_baseUrl = bUrl,
          c_tsconfigPathsMatcher = tsconfigPathsMatcher, c_baseDir = baseDir\<rparr>)"

definition mapFile ::
  "Externals \<Rightarrow> string \<Rightarrow> string \<Rightarrow> SourceFile \<Rightarrow> string option \<Rightarrow> TsConfigPaths option
     \<Rightarrow> error + File" where
  "mapFile ext rootDir pth file bUrl pths =
     (let nm = extractFilename (relative ext) rootDir pth;
          c = makeClosure ext rootDir pth file bUrl pths
      in case forEachChild (visitNode ext c) (children file) initialState of
           Inl e \<Rightarrow> Inl e
         | Inr st \<Rightarrow>
             Inr \<lparr>path = nm, fullPath = pth, imports = st_imports st,
                  exports = st_exports st, exportLocations = st_exportLocations st\<rparr>)"

subsection \<open>parseFile and parsePaths\<close>

definition parseFile ::
  "Externals \<Rightarrow> string \<Rightarrow> string \<Rightarrow> string option \<Rightarrow> TsConfigPaths option \<Rightarrow> error + File" where
  "parseFile ext rootDir pth bUrl pths =
     (case readFileSync ext pth of
        Inl e \<Rightarrow> Inl e
      | Inr txt \<Rightarrow>
          (case createSourceFile ext pth txt of
             Inl e \<Rightarrow> Inl e
           | Inr file \<Rightarrow> mapFile ext rootDir pth file bUrl pths))"

text \<open>
  \<^verbatim>\<open>Array.prototype.map\<close> with a callback that may throw: the elements are mapped from
  the left and the first exception leaves the call.
\<close>

fun map_throwing :: "('a \<Rightarrow> error + 'b) \<Rightarrow> 'a list \<Rightarrow> error + 'b list" where
  "map_throwing f [] = Inr []"
| "map_throwing f (x # xs) =
     (case f x of
        Inl e \<Rightarrow> Inl e
      | Inr y \<Rightarrow> (case map_throwing f xs of Inl e \<Rightarrow> Inl e | Inr ys \<Rightarrow> Inr (y # ys)))"

text \<open>
  \<^verbatim>\<open>extraOptions && !extraOptions.excludeDeclarationFiles\<close>: \<^verbatim>\<open>undefined\<close> without an
  options object, else the negation of the flag, where an unset flag negates to true.
\<close>

definition includeDeclarationFiles :: "ExtraCommandLineOptions option \<Rightarrow> bool option" where
  "includeDeclarationFiles extraOptions =
     (case extraOptions of
        None \<Rightarrow> None
      | Some opts \<Rightarrow> Some (\<not> truthy_bool (excludeDeclarationFiles opts)))"

definition keepPath :: "ExtraCommandLineOptions option \<Rightarrow> string \<Rightarrow> bool" where
  "keepPath extraOptions p =
     (truthy_bool (includeDeclarationFiles extraOptions) \<or> indexOf p ''.d.'' = - 1)"

definition parsePaths ::
  "Externals \<Rightarrow> string \<Rightarrow> TsConfig \<Rightarrow> ExtraCommandLineOptions option \<Rightarrow> error + File list" where
  "parsePaths ext rootDir cfg extraOptions =
     map_throwing
       (\<lambda>p. parseFile ext rootDir (resolve ext rootDir p) (baseUrl cfg) (paths cfg))
       (filter (keepPath extraOptions) (files cfg))"

subsection \<open>Registration of an import\<close>

text \<open>
  Modelled from the spec: the constant \<open>star\<close> of parser.common is not under src/. The
  names that a descriptor contributes to an entry of \<open>imports\<close>, the wildcard marker
  being the name \<open>*\<close>.
\<close>

definition whatNames :: "What \<Rightarrow> string list" where
  "whatNames w = (case w of Star \<Rightarrow> [''*''] | Names ws \<Rightarrow> ws)"

text \<open>
  Modelled from the spec: \<open>addImportCore\<close> of parser.import is not under src/. The spec
  has the raw specifier mapped to a resolved module key and what is imported registered
  in \<open>imports\<close> under that key, merged with the entry the key already has. The
  resolver is a parameter: it is given the specifier and everything parser.ts hands over
  for the resolution, the root directory, the path of the importing file, the alias
  matcher, the base directory and the base URL. Without a key nothing is registered and
  \<^verbatim>\<open>undefined\<close> is returned.
\<close>

type_synonym Resolver =
  "string \<Rightarrow> string \<Rightarrow> string \<Rightarrow> MatchPath option \<Rightarrow> string option \<Rightarrow> string option
     \<Rightarrow> string option"

definition addImportCore_spec ::
  "Resolver \<Rightarrow> FromWhat \<Rightarrow> string \<Rightarrow> string \<Rightarrow> Imports
     \<Rightarrow> MatchPath option \<Rightarrow> string option \<Rightarrow> string option \<Rightarrow> string option \<times> Imports" where
  "addImportCore_spec resolveKey fw rootDir pth imps matcher baseDir bUrl =
     (case resolveKey (fromSpecifier fw) rootDir pth matcher baseDir bUrl of
        None \<Rightarrow> (None, imps)
      | Some key \<Rightarrow>
          (Some key,
           imps(key \<mapsto> (case imps key of None \<Rightarrow> [] | Some items \<Rightarrow> items) @ whatNames (what fw))))"

subsection \<open>A small project to run the parser on\<close>

definition quoted :: "string \<Rightarrow> string" where
  "quoted s = CHR 0x27 # s @ [CHR 0x27]"

definition unquote :: "string \<Rightarrow> string" where
  "unquote s = butlast (tl s)"

definition src_star :: string where
  "src_star = ''export * from '' @ quoted ''./m'' @ '';''"

definition src_named :: string where
  "src_named = ''export { x } from '' @ quoted ''./m'' @ '';''"

definition src_lodash :: string where
  "src_lodash = ''export { x } from '' @ quoted ''lodash'' @ '';''"

definition src_dyn :: string where
  "src_dyn = ''export const y = import('' @ quoted ''./m'' @ '');''"

definition src_a :: string where
  "src_a = ''export const a = 1;''"

definition src_off :: string where
  "src_off = directive @ [CHR 0x0A] @ src_a"

definition src_near :: string where
  "src_near = ''// ts-unused-exports:disable-next-line '' @ [CHR 0x0A] @ src_a"

definition node_star :: Node where
  "node_star = \<lparr>kind = ExportDeclaration, modifiers = None, fullStart = 0,
     moduleSpecifier = Some (quoted ''./m''), name = None,
     nodeSpan = (0, length src_star), nodeText = src_star\<rparr>"

definition node_named :: Node where
  "node_named = \<lparr>kind = ExportDeclaration, modifiers = None, fullStart = 0,
     moduleSpecifier = Some (quoted ''./m''), name = None,
     nodeSpan = (0, length src_named), nodeText = src_named\<rparr>"

definition node_lodash :: Node where
  "node_lodash = \<lparr>kind = ExportDeclaration, modifiers = None, fullStart = 0,
     moduleSpecifier = Some (quoted ''lodash''), name = None,
     nodeSpan = (0, length src_lodash), nodeText = src_lodash\<rparr>"

definition node_dyn :: Node where
  "node_dyn = \<lparr>kind = OtherKind 225, modifiers = Some [ExportKeyword], fullStart = 0,
     moduleSpecifier = None, name = None,
     nodeSpan = (0, length src_dyn), nodeText = src_dyn\<rparr>"

definition node_a :: Node where
  "node_a = \<lparr>kind = OtherKind 225, modifiers = Some [ExportKeyword], fullStart = 0,
     moduleSpecifier = None, name = None,
     nodeSpan = (0, length src_a), nodeText = src_a\<rparr>"

definition node_off :: Node where
  "node_off = \<lparr>kind = OtherKind 225, modifiers = Some [ExportKeyword], fullStart = 0,
     moduleSpecifier = None, name = None,
     nodeSpan = (length directive + 1, length src_off), nodeText = src_a\<rparr>"

definition node_near :: Node where
  "node_near = \<lparr>kind = OtherKind 225, modifiers = Some [ExportKeyword], fullStart = 0,
     moduleSpecifier = None, name = None,
     nodeSpan = (length directive + 2, length src_near), nodeText = src_a\<rparr>"

definition sample_disk :: "(string \<times> string) list" where
  "sample_disk =
     [(''/proj/a.ts'', src_a), (''/proj/types.d.ts'', src_a),
      (''/proj/foo.d.backup.ts'', src_a), (''/proj/lib.d.old/b.ts'', src_a),
      (''/proj/star.ts'', src_star), (''/proj/named.ts'', src_named),
      (''/proj/lodash.ts'', src_lodash), (''/proj/dyn.ts'', src_dyn),
      (''/proj/off.ts'', src_off), (''/proj/near.ts'', src_near)]"

definition sample_trees :: "(string \<times> Node list) list" where
  "sample_trees =
     [(src_a, [node_a]), (src_star, [node_star]), (src_named, [node_named]),
      (src_lodash, [node_lodash]), (src_dyn, [node_dyn]), (src_off, [node_off]),
      (src_near, [node_near])]"

text \<open>A scanner for one line comment at the given position.\<close>

definition sample_commentRanges :: "string \<Rightarrow> nat \<Rightarrow> (nat \<times> nat) list option" where
  "sample_commentRanges txt pos =
     (let rest = drop pos txt
      in if prefix ''//'' rest
         then Some [(pos, pos + length (takeWhile (\<lambda>ch. ch \<noteq> CHR 0x0A) rest))]
         else None)"

definition sample_resolveKey :: Resolver where
  "sample_resolveKey specifier rootDir fromFile matcher baseDir bUrl =
     (if prefix ''./'' specifier then Some (drop 2 specifier) else None)"

definition sample_ext :: Externals where
  "sample_ext =
     \<lparr>relative = (\<lambda>r p. drop (Suc (length r)) p),
      resolve = (\<lambda>r p. r @ ''/'' @ p),
      readFileSync =
        (\<lambda>p. case map_of sample_disk p of None \<Rightarrow> Inl FileReadError | Some t \<Rightarrow> Inr t),
      createSourceFile =
        (\<lambda>p t. case map_of sample_trees t of
                  None \<Rightarrow> Inl ParseError
                | Some ns \<Rightarrow> Inr \<lparr>fullText = t, children = ns\<rparr>),
      getLeadingCommentRanges = sample_commentRanges,
      createMatchPath = (\<lambda>b ps s. None),
      extractImport =
        (\<lambda>n. \<lparr>fromSpecifier = (case moduleSpecifier n of None \<Rightarrow> [] | Some s \<Rightarrow> unquote s),
               what = Names []\<rparr>),
      extractExportStatement = (\<lambda>n. []),
      extractExportFromImport =
        (\<lambda>n s. \<lparr>fromSpecifier = unquote s,
                 what = (if prefix ''export *'' (nodeText n) then Star else Names [''x''])\<rparr>),
      extractExport =
        (\<lambda>p n. if nodeText n = src_a then ''a'' else if nodeText n = src_dyn then ''y'' else []),
      mayContainDynamicImports = (\<lambda>n. indexOf (nodeText n) ''import('' \<noteq> - 1),
      dynamicImports =
        (\<lambda>n. if nodeText n = src_dyn then [\<lparr>fromSpecifier = ''./m'', what = Names []\<rparr>] else []),
      addImportCore = addImportCore_spec sample_resolveKey\<rparr>"

definition cfg_of :: "string list \<Rightarrow> TsConfig" where
  "cfg_of fs = \<lparr>baseUrl = None, files = fs, paths = None\<rparr>"

definition sample_closure :: "string \<Rightarrow> SourceFile \<Rightarrow> Closure" where
  "sample_closure pth file = makeClosure sample_ext ''/proj'' pth file None None"

definition file_off :: SourceFile where
  "file_off = \<lparr>fullText = src_off, children = [node_off]\<rparr>"

definition file_near :: SourceFile where
  "file_near = \<lparr>fullText = src_near, children = [node_near]\<rparr>"

definition file_named :: SourceFile where
  "file_named = \<lparr>fullText = src_named, children = [node_named]\<rparr>"

definition file_lodash :: SourceFile where
  "file_lodash = \<lparr>fullText = src_lodash, children = [node_lodash]\<rparr>"

definition file_star :: SourceFile where
  "file_star = \<lparr>fullText = src_star, children = [node_star]\<rparr>"

definition file_dyn :: SourceFile where
  "file_dyn = \<lparr>fullText = src_dyn, children = [node_dyn]\<rparr>"





section \<open>Properties\<close>

subsection \<open>extractFilename\<close>

lemma replace_index_ext_no_dot: "CHR ''.'' \<notin> set s \<Longrightarrow> replace_index_ext s = s"
  by (induction s) (auto simp: match_index_ext_def match_ext_def prefix_def split: list.splits)

text \<open>
  C2. \<open>extractFilename\<close> on the three path variants of module \<open>foo\<close> under the same root:
  \<open>foo/index.ts\<close> and \<open>foo.ts\<close> give \<open>foo\<close>, but \<open>foo/index.d.ts\<close> gives
  \<open>foo/index\<close>: the expression removes only \<open>.ts\<close>, because \<open>/index\<close> is followed by
  \<open>.d.ts\<close>, which holds a second dot, and the \<open>.d\<close> is removed afterwards.
\<close>

theorem extractFilename_variants:
  "extractFilename (relative sample_ext) ''/proj'' ''/proj/foo/index.ts'' = ''foo''
   \<and> extractFilename (relative sample_ext) ''/proj'' ''/proj/foo.ts'' = ''foo''
   \<and> extractFilename (relative sample_ext) ''/proj'' ''/proj/foo/index.d.ts'' = ''foo/index''"
  by code_simp

subsection \<open>parsePaths: the file filter, the order and failures\<close>

lemma indexOf_from_absent: "indexOf_from s t i = - 1 \<longleftrightarrow> \<not> sublist t s"
  by (induction s arbitrary: i) (auto simp: sublist_Cons_right)

lemma indexOf_absent: "indexOf s t = - 1 \<longleftrightarrow> \<not> sublist t s"
  by (simp add: indexOf_def indexOf_from_absent)

lemma keepPath_iff:
  "keepPath eo p \<longleftrightarrow>
     (case eo of None \<Rightarrow> False | Some opts \<Rightarrow> excludeDeclarationFiles opts \<noteq> Some True)
     \<or> \<not> sublist ''.d.'' p"
  by (auto simp: keepPath_def includeDeclarationFiles_def truthy_bool_def indexOf_absent
           split: option.splits)

lemma map_throwing_Inr: "map_throwing f xs = Inr ys \<Longrightarrow> map Inr ys = map f xs"
  by (induction xs arbitrary: ys) (auto split: sum.splits)

lemma map_throwing_Inl: "x \<in> set xs \<Longrightarrow> f x = Inl e \<Longrightarrow> \<exists>e'. map_throwing f xs = Inl e'"
  by (induction xs) (auto split: sum.splits)

lemma map_throwing_all_Inr:
  "(\<And>x. x \<in> set xs \<Longrightarrow> \<exists>y. f x = Inr y) \<Longrightarrow> \<exists>ys. map_throwing f xs = Inr ys"
  by (induction xs) (fastforce split: sum.splits)+

lemma map_sum_InrD: "map_sum f g x = Inr y \<Longrightarrow> \<exists>z. x = Inr z \<and> g z = y"
  by (cases x) auto

lemma mapFile_fullPath: "mapFile ext rootDir p file b ps = Inr f \<Longrightarrow> fullPath f = p"
  by (auto simp: mapFile_def Let_def split: sum.splits)

lemma parseFile_fullPath: "parseFile ext rootDir p b ps = Inr f \<Longrightarrow> fullPath f = p"
  by (auto simp: parseFile_def split: sum.splits dest: mapFile_fullPath)

lemma map_throwing_fullPath:
  "map_throwing (\<lambda>p. parseFile ext rootDir (g p) b ps) xs = Inr fs \<Longrightarrow> map fullPath fs = map g xs"
  by (induction xs arbitrary: fs) (auto split: sum.splits dest: parseFile_fullPath)

lemma parsePaths_fullPaths:
  "parsePaths ext rootDir cfg eo = Inr fs \<Longrightarrow>
     map fullPath fs = map (resolve ext rootDir) (filter (keepPath eo) (files cfg))"
  unfolding parsePaths_def by (rule map_throwing_fullPath)

lemma parseFile_read_or_parse_fails:
  "readFileSync ext p = Inl e
   \<or> (\<exists>txt. readFileSync ext p = Inr txt \<and> createSourceFile ext p txt = Inl e)
   \<Longrightarrow> parseFile ext rootDir p b ps = Inl e"
  by (auto simp: parseFile_def)

text \<open>
  C1 (as amended). The files that \<open>parsePaths\<close> processes are, in order, the configured
  paths that do not contain \<open>.d.\<close>, together with those that do when an options object
  is given and its \<open>excludeDeclarationFiles\<close> is not true (unset or false). Without an
  options object, and with the flag set to true, a declaration path is dropped.
\<close>

theorem parsePaths_declaration_policy:
  "parsePaths ext rootDir cfg eo = Inr fs \<Longrightarrow>
     map fullPath fs =
       map (resolve ext rootDir)
         (filter (\<lambda>p. (case eo of None \<Rightarrow> False
                              | Some opts \<Rightarrow> excludeDeclarationFiles opts \<noteq> Some True)
                      \<or> \<not> sublist ''.d.'' p)
            (files cfg))"
proof -
  assume "parsePaths ext rootDir cfg eo = Inr fs"
  then have "map fullPath fs = map (resolve ext rootDir) (filter (keepPath eo) (files cfg))"
    by (rule parsePaths_fullPaths)
  moreover have "keepPath eo =
      (\<lambda>p. (case eo of None \<Rightarrow> False | Some opts \<Rightarrow> excludeDeclarationFiles opts \<noteq> Some True)
            \<or> \<not> sublist ''.d.'' p)"
    by (rule ext) (rule keepPath_iff)
  ultimately show ?thesis by simp
qed

text \<open>
  The policy on a project of \<open>a.ts\<close> and \<open>types.d.ts\<close>: with the flag unset both files
  are returned, with the flag true only \<open>a.ts\<close>.
\<close>

theorem parsePaths_declaration_policy_witness:
  "(\<exists>fs. parsePaths sample_ext ''/proj'' (cfg_of [''a.ts'', ''types.d.ts''])
            (Some \<lparr>excludeDeclarationFiles = None\<rparr>) = Inr fs
         \<and> map fullPath fs = [''/proj/a.ts'', ''/proj/types.d.ts''])
   \<and> (\<exists>fs. parsePaths sample_ext ''/proj'' (cfg_of [''a.ts'', ''types.d.ts''])
            (Some \<lparr>excludeDeclarationFiles = Some True\<rparr>) = Inr fs
         \<and> map fullPath fs = [''/proj/a.ts''])"
proof -
  have s1: "sublist ''.d.'' ''types.d.ts''" by code_simp
  have s2: "\<not> sublist ''.d.'' ''a.ts''" by code_simp
  have "map_sum id (map path) (parsePaths sample_ext ''/proj'' (cfg_of [''a.ts'', ''types.d.ts''])
            (Some \<lparr>excludeDeclarationFiles = None\<rparr>)) = Inr [''a'', ''types'']"
    by code_simp
  then obtain fs1 where h1: "parsePaths sample_ext ''/proj'' (cfg_of [''a.ts'', ''types.d.ts''])
            (Some \<lparr>excludeDeclarationFiles = None\<rparr>) = Inr fs1"
    by (auto dest: map_sum_InrD)
  have "map_sum id (map path) (parsePaths sample_ext ''/proj'' (cfg_of [''a.ts'', ''types.d.ts''])
            (Some \<lparr>excludeDeclarationFiles = Some True\<rparr>)) = Inr [''a'']"
    by code_simp
  then obtain fs2 where h2: "parsePaths sample_ext ''/proj'' (cfg_of [''a.ts'', ''types.d.ts''])
            (Some \<lparr>excludeDeclarationFiles = Some True\<rparr>) = Inr fs2"
    by (auto dest: map_sum_InrD)
  have "map fullPath fs1 = [''/proj/a.ts'', ''/proj/types.d.ts'']"
    using parsePaths_declaration_policy [OF h1] s1 s2 by (simp add: cfg_of_def sample_ext_def)
  moreover have "map fullPath fs2 = [''/proj/a.ts'']"
    using parsePaths_declaration_policy [OF h2] s1 s2 by (simp add: cfg_of_def sample_ext_def)
  ultimately show ?thesis using h1 h2 by simp
qed

text \<open>
  C1 as stated fails when no options object is given: the only configured file is a
  declaration file, every read would succeed, and nothing is returned.
\<close>

theorem parsePaths_absent_options_counterexample:
  "''types.d.ts'' \<in> set (files (cfg_of [''types.d.ts'']))
   \<and> parsePaths sample_ext ''/proj'' (cfg_of [''types.d.ts'']) None = Inr []"
proof -
  have "\<not> keepPath None ''types.d.ts''" by code_simp
  then show ?thesis by (simp add: parsePaths_def cfg_of_def)
qed

text \<open>
  C8. The File records that \<open>parsePaths\<close> returns are the results of \<open>parseFile\<close> on the
  surviving entries of \<open>files\<close>, one for one and in the order of \<open>files\<close>: nothing is
  sorted and a path listed twice is parsed twice.
\<close>

theorem parsePaths_order:
  "parsePaths ext rootDir cfg eo = Inr fs \<Longrightarrow>
     map Inr fs =
       map (\<lambda>p. parseFile ext rootDir (resolve ext rootDir p) (baseUrl cfg) (paths cfg))
         (filter (keepPath eo) (files cfg))
     \<and> map fullPath fs = map (resolve ext rootDir) (filter (keepPath eo) (files cfg))
     \<and> length fs = length (filter (keepPath eo) (files cfg))"
proof -
  assume h: "parsePaths ext rootDir cfg eo = Inr fs"
  then have a: "map Inr fs =
       map (\<lambda>p. parseFile ext rootDir (resolve ext rootDir p) (baseUrl cfg) (paths cfg))
         (filter (keepPath eo) (files cfg))"
    unfolding parsePaths_def by (rule map_throwing_Inr)
  have b: "map fullPath fs = map (resolve ext rootDir) (filter (keepPath eo) (files cfg))"
    using h by (rule parsePaths_fullPaths)
  from b have "length (map fullPath fs)
      = length (map (resolve ext rootDir) (filter (keepPath eo) (files cfg)))"
    by simp
  then have c: "length fs = length (filter (keepPath eo) (files cfg))" by simp
  from a b c show ?thesis by blast
qed

text \<open>An unsorted file list with repeated paths comes back in the same order, repeats kept.\<close>

theorem parsePaths_order_witness:
  "\<exists>fs. parsePaths sample_ext ''/proj'' (cfg_of [''star.ts'', ''a.ts'', ''star.ts'', ''a.ts''])
            (Some \<lparr>excludeDeclarationFiles = None\<rparr>) = Inr fs
        \<and> map fullPath fs = [''/proj/star.ts'', ''/proj/a.ts'', ''/proj/star.ts'', ''/proj/a.ts'']
        \<and> length fs = 4"
proof -
  have k: "filter (keepPath (Some \<lparr>excludeDeclarationFiles = None\<rparr>))
             [''star.ts'', ''a.ts'', ''star.ts'', ''a.ts'']
           = [''star.ts'', ''a.ts'', ''star.ts'', ''a.ts'']"
    by code_simp
  have "map_sum id (map path) (parsePaths sample_ext ''/proj''
            (cfg_of [''star.ts'', ''a.ts'', ''star.ts'', ''a.ts''])
            (Some \<lparr>excludeDeclarationFiles = None\<rparr>)) = Inr [''star'', ''a'', ''star'', ''a'']"
    by code_simp
  then obtain fs where h: "parsePaths sample_ext ''/proj''
            (cfg_of [''star.ts'', ''a.ts'', ''star.ts'', ''a.ts''])
            (Some \<lparr>excludeDeclarationFiles = None\<rparr>) = Inr fs"
    by (auto dest: map_sum_InrD)
  from parsePaths_order [OF h] k have
    "map fullPath fs = [''/proj/star.ts'', ''/proj/a.ts'', ''/proj/star.ts'', ''/proj/a.ts'']
     \<and> length fs = 4"
    by (simp add: cfg_of_def sample_ext_def)
  with h show ?thesis by simp
qed

text \<open>
  C9. When the filter is active (\<open>includeDeclarationFiles\<close> is not truthy), every path
  that contains \<open>.d.\<close> anywhere is dropped, whatever follows the \<open>.d.\<close>, and the files
  processed are exactly the paths without that substring.
\<close>

theorem parsePaths_substring_filter:
  "\<not> truthy_bool (includeDeclarationFiles eo) \<Longrightarrow>
     (\<forall>p. sublist ''.d.'' p \<longrightarrow> \<not> keepPath eo p)
     \<and> (\<forall>fs. parsePaths ext rootDir cfg eo = Inr fs \<longrightarrow>
           map fullPath fs =
             map (resolve ext rootDir) (filter (\<lambda>p. \<not> sublist ''.d.'' p) (files cfg)))"
proof -
  assume off: "\<not> truthy_bool (includeDeclarationFiles eo)"
  then have k: "keepPath eo = (\<lambda>p. \<not> sublist ''.d.'' p)"
    by (auto simp: keepPath_def indexOf_absent)
  show ?thesis
    using parsePaths_fullPaths [of ext rootDir cfg eo] by (simp add: k)
qed

text \<open>
  With the flag true, \<open>foo.d.backup.ts\<close> and a file under the directory \<open>lib.d.old\<close>
  are dropped although neither ends in \<open>.d.ts\<close>.
\<close>

theorem parsePaths_substring_filter_witness:
  "\<not> truthy_bool (includeDeclarationFiles (Some \<lparr>excludeDeclarationFiles = Some True\<rparr>))
   \<and> \<not> keepPath (Some \<lparr>excludeDeclarationFiles = Some True\<rparr>) ''foo.d.backup.ts''
   \<and> \<not> keepPath (Some \<lparr>excludeDeclarationFiles = Some True\<rparr>) ''lib.d.old/b.ts''
   \<and> (\<exists>fs. parsePaths sample_ext ''/proj''
              (cfg_of [''foo.d.backup.ts'', ''a.ts'', ''lib.d.old/b.ts''])
              (Some \<lparr>excludeDeclarationFiles = Some True\<rparr>) = Inr fs
           \<and> map fullPath fs = [''/proj/a.ts''])"
proof -
  let ?eo = "Some \<lparr>excludeDeclarationFiles = Some True\<rparr>"
  let ?cfg = "cfg_of [''foo.d.backup.ts'', ''a.ts'', ''lib.d.old/b.ts'']"
  have off: "\<not> truthy_bool (includeDeclarationFiles ?eo)"
    by (simp add: truthy_bool_def includeDeclarationFiles_def)
  have s1: "sublist ''.d.'' ''foo.d.backup.ts''" by code_simp
  have s2: "sublist ''.d.'' ''lib.d.old/b.ts''" by code_simp
  have s3: "\<not> sublist ''.d.'' ''a.ts''" by code_simp
  have "map_sum id (map path) (parsePaths sample_ext ''/proj'' ?cfg ?eo) = Inr [''a'']"
    by code_simp
  then obtain fs where h: "parsePaths sample_ext ''/proj'' ?cfg ?eo = Inr fs"
    by (auto dest: map_sum_InrD)
  note inst = parsePaths_substring_filter [OF off, of sample_ext "''/proj''" ?cfg]
  from inst h have "map fullPath fs
      = map (resolve sample_ext ''/proj'') (filter (\<lambda>p. \<not> sublist ''.d.'' p) (files ?cfg))"
    by simp
  then have "map fullPath fs = [''/proj/a.ts'']"
    using s1 s2 s3 by (simp add: cfg_of_def sample_ext_def)
  with inst s1 s2 off h show ?thesis by simp
qed

text \<open>
  C6. If reading or parsing one of the files that \<open>parsePaths\<close> processes fails, the
  whole call fails: the result is an error and never a sequence of File records, whatever
  the other files are.
\<close>

theorem parsePaths_failure_aborts:
  assumes "p \<in> set (files cfg)" and "keepPath eo p"
    and "readFileSync ext (resolve ext rootDir p) = Inl e
         \<or> (\<exists>txt. readFileSync ext (resolve ext rootDir p) = Inr txt
                 \<and> createSourceFile ext (resolve ext rootDir p) txt = Inl e)"
  shows "(\<exists>e'. parsePaths ext rootDir cfg eo = Inl e')
         \<and> (\<forall>fs. parsePaths ext rootDir cfg eo \<noteq> Inr fs)"
proof -
  have "parseFile ext rootDir (resolve ext rootDir p) (baseUrl cfg) (paths cfg) = Inl e"
    using assms(3) by (rule parseFile_read_or_parse_fails)
  moreover have "p \<in> set (filter (keepPath eo) (files cfg))"
    using assms(1,2) by simp
  ultimately have "\<exists>e'. parsePaths ext rootDir cfg eo = Inl e'"
    unfolding parsePaths_def
    by (rule map_throwing_Inl
        [where f = "\<lambda>p. parseFile ext rootDir (resolve ext rootDir p) (baseUrl cfg) (paths cfg)",
         rotated])
  then show ?thesis by auto
qed

text \<open>
  A project whose second file is not on the disk: the first file parses, the third
  would, and the call returns the read error alone.
\<close>

theorem parsePaths_failure_aborts_witness:
  "''missing.ts'' \<in> set (files (cfg_of [''a.ts'', ''missing.ts'', ''star.ts'']))
   \<and> keepPath None ''missing.ts''
   \<and> readFileSync sample_ext (resolve sample_ext ''/proj'' ''missing.ts'') = Inl FileReadError
   \<and> (\<exists>e'. parsePaths sample_ext ''/proj'' (cfg_of [''a.ts'', ''missing.ts'', ''star.ts'']) None
             = Inl e')
   \<and> (\<forall>fs. parsePaths sample_ext ''/proj'' (cfg_of [''a.ts'', ''missing.ts'', ''star.ts'']) None
             \<noteq> Inr fs)"
proof -
  have a: "''missing.ts'' \<in> set (files (cfg_of [''a.ts'', ''missing.ts'', ''star.ts'']))"
    by (simp add: cfg_of_def)
  have b: "keepPath None ''missing.ts''" by code_simp
  have c: "readFileSync sample_ext (resolve sample_ext ''/proj'' ''missing.ts'')
           = Inl FileReadError"
    by code_simp
  from parsePaths_failure_aborts [OF a b disjI1, OF c] a b c show ?thesis by simp
qed

subsection \<open>mapFile: the directive, the dispatch and the re-exports\<close>

lemma addImport_frame:
  "addImport ext c fw st = (key, st1) \<Longrightarrow>
     st_exports st1 = st_exports st \<and> st_exportLocations st1 = st_exportLocations st"
  by (auto simp: addImport_def split: prod.splits)

lemma addImport_imports:
  "addImport ext c fw st = (key, st1) \<Longrightarrow>
     addImportCore ext fw (c_rootDir c) (c_path c) (st_imports st)
       (c_tsconfigPathsMatcher c) (c_baseDir c) (c_baseUrl c) = (key, st_imports st1)"
  by (auto simp: addImport_def split: prod.splits)

lemma addExport_exports [simp]:
  "st_exports (addExport c exportName node st) = st_exports st @ [exportName]"
  by (simp add: addExport_def addExportCore_def)

lemma addExport_exportLocations [simp]:
  "st_exportLocations (addExport c exportName node st)
     = st_exportLocations st @ [\<lparr>locName = exportName, locSpan = nodeSpan node\<rparr>]"
  by (simp add: addExport_def addExportCore_def)

lemma addExport_imports [simp]: "st_imports (addExport c exportName node st) = st_imports st"
  by (simp add: addExport_def addExportCore_def)

lemma addExport_file [simp]: "addExport (c\<lparr>c_file := f\<rparr>) = addExport c"
  by (rule ext)+ (simp add: addExport_def addExportCore_def)

lemma addImport_file [simp]: "addImport ext (c\<lparr>c_file := f\<rparr>) = addImport ext c"
  by (rule ext)+ (simp add: addImport_def)

lemma importBranch_file:
  "importBranch ext (c\<lparr>c_file := f\<rparr>) node st = importBranch ext c node st"
  by (simp add: importBranch_def)

lemma exportAssignmentBranch_file:
  "exportAssignmentBranch (c\<lparr>c_file := f\<rparr>) node st = exportAssignmentBranch c node st"
  by (simp add: exportAssignmentBranch_def)

lemma exportStatementBranch_file:
  "exportStatementBranch ext (c\<lparr>c_file := f\<rparr>) node st = exportStatementBranch ext c node st"
  by (simp add: exportStatementBranch_def)

lemma exportFromBranch_file:
  "exportFromBranch ext (c\<lparr>c_file := f\<rparr>) node specifier st
     = exportFromBranch ext c node specifier st"
  by (simp add: exportFromBranch_def Let_def split: prod.splits What.splits option.splits)

lemma dynamicImportsBranch_file:
  "dynamicImportsBranch ext (c\<lparr>c_file := f\<rparr>) node st = dynamicImportsBranch ext c node st"
  by (simp add: dynamicImportsBranch_def)

lemma exportModifierBranch_file:
  "exportModifierBranch ext (c\<lparr>c_file := f\<rparr>) node st = exportModifierBranch ext c node st"
  by (simp add: exportModifierBranch_def Let_def split: option.splits)

lemma extractNode_file: "extractNode ext (c\<lparr>c_file := f\<rparr>) node st = extractNode ext c node st"
  by (simp add: extractNode_def importBranch_file exportAssignmentBranch_file
        exportStatementBranch_file exportFromBranch_file dynamicImportsBranch_file
        exportModifierBranch_file Let_def split: option.splits)

lemma forEachChild_append:
  "forEachChild f (xs @ ys) st =
     (case forEachChild f xs st of Inl e \<Rightarrow> Inl e | Inr st' \<Rightarrow> forEachChild f ys st')"
  by (induction xs arbitrary: st) (auto split: sum.splits)

lemma forEachChild_skip:
  "(\<And>s. f n s = Inr s) \<Longrightarrow> forEachChild f (pre @ n # post) st = forEachChild f (pre @ post) st"
  by (simp add: forEachChild_append split: sum.splits)

lemma isNodeDisabledViaComment_last:
  "getLeadingCommentRanges ext (fullText file) (fullStart node) = Some rs \<Longrightarrow> rs \<noteq> [] \<Longrightarrow>
   last rs = (pos, e) \<Longrightarrow>
   isNodeDisabledViaComment ext node file = Inr (substring (fullText file) pos e = directive)"
  by (cases rs) (auto simp: isNodeDisabledViaComment_def)

lemma isNodeDisabledViaComment_no_comment:
  "getLeadingCommentRanges ext (fullText file) (fullStart node) = None \<Longrightarrow>
   isNodeDisabledViaComment ext node file = Inr False"
  by (simp add: isNodeDisabledViaComment_def)

lemma sample_closure_file [simp]: "c_file (sample_closure pth file) = file"
  by (simp add: sample_closure_def makeClosure_def Let_def)

lemma visitNode_enabled:
  "isNodeDisabledViaComment ext node (c_file c) = Inr False \<Longrightarrow>
     visitNode ext c node st = Inr (extractNode ext c node st)"
  by (simp add: visitNode_def)

lemma extractNode_exportFrom:
  "kind node = ExportDeclaration \<Longrightarrow> moduleSpecifier node = Some specifier \<Longrightarrow>
     extractNode ext c node st = exportFromBranch ext c node specifier st"
  by (simp add: extractNode_def)


lemma exportFromBranch_names:
  assumes "what (extractExportFromImport ext node specifier) = Names ws"
    and "addImport ext c (extractExportFromImport ext node specifier) st = (key, st1)"
  shows "exportFromBranch ext c node specifier st
         = (if truthy_string key then st1\<lparr>st_exports := st_exports st1 @ ws\<rparr> else st1)"
  using assms by (simp add: exportFromBranch_def Let_def truthy_string_def split: option.splits)

lemma extractNode_branches:
  "extractNode ext c node st = fold (runBranch ext c node) (branchesTaken ext node) st"
  by (simp add: extractNode_def branchesTaken_def Let_def split: option.splits)

lemma branchesTaken_at_most_one:
  "length (filter classifying (branchesTaken ext node)) \<le> 1"
  by (simp add: branchesTaken_def split: option.splits)

lemma branchesTaken_exclusive:
  "DynamicImportScan \<in> set (branchesTaken ext node) \<or> ExportModifier \<in> set (branchesTaken ext node)
   \<Longrightarrow> filter classifying (branchesTaken ext node) = []"
  by (auto simp: branchesTaken_def split: option.splits if_splits)

lemma fold_addExport_exports:
  "st_exports (fold (\<lambda>e s. addExport c e node s) es st) = st_exports st @ es"
  by (induction es arbitrary: st) simp_all

lemma fold_addExport_exportLocations:
  "st_exportLocations (fold (\<lambda>e s. addExport c e node s) es st)
     = st_exportLocations st @ map (\<lambda>n. \<lparr>locName = n, locSpan = nodeSpan node\<rparr>) es"
  by (induction es arbitrary: st) simp_all

lemma snd_addImport_frame:
  "st_exports (snd (addImport ext c fw st)) = st_exports st
   \<and> st_exportLocations (snd (addImport ext c fw st)) = st_exportLocations st"
  by (simp add: addImport_def split: prod.splits)

lemma addDynamicImports_frame:
  "st_exports (addDynamicImports ext node (addImport ext c) st) = st_exports st
   \<and> st_exportLocations (addDynamicImports ext node (addImport ext c) st) = st_exportLocations st"
proof -
  have "st_exports (fold (\<lambda>fw s. snd (addImport ext c fw s)) fws st) = st_exports st
        \<and> st_exportLocations (fold (\<lambda>fw s. snd (addImport ext c fw s)) fws st)
            = st_exportLocations st" for fws
    by (induction fws arbitrary: st) (simp_all add: snd_addImport_frame)
  then show ?thesis by (simp add: addDynamicImports_def)
qed

lemma runBranch_locations:
  assumes "\<forall>specifier. b = ExportWithSpecifier specifier \<longrightarrow>
             what (extractExportFromImport ext node specifier) = Star"
  shows "\<exists>ns. st_exports (runBranch ext c node b st) = st_exports st @ ns
           \<and> st_exportLocations (runBranch ext c node b st)
               = st_exportLocations st @ map (\<lambda>n. \<lparr>locName = n, locSpan = nodeSpan node\<rparr>) ns"
proof (cases b)
  case PlainImport
  then show ?thesis
    by (simp add: importBranch_def snd_addImport_frame)
next
  case ExportByAssignment
  then show ?thesis
    by (simp add: exportAssignmentBranch_def)
next
  case ExportWithoutSpecifier
  then show ?thesis
    by (simp add: exportStatementBranch_def fold_addExport_exports fold_addExport_exportLocations)
next
  case (ExportWithSpecifier specifier)
  with assms have star: "what (extractExportFromImport ext node specifier) = Star" by simp
  obtain key st1 where ai: "addImport ext c (extractExportFromImport ext node specifier) st = (key, st1)"
    by (cases "addImport ext c (extractExportFromImport ext node specifier) st") auto
  from addImport_frame [OF ai] star ai ExportWithSpecifier show ?thesis
    by (simp add: exportFromBranch_def Let_def split: option.splits)
next
  case DynamicImportScan
  then show ?thesis
    by (simp add: dynamicImportsBranch_def addDynamicImports_frame)
next
  case ExportModifier
  then show ?thesis
    by (simp add: exportModifierBranch_def Let_def)
qed

lemma fold_runBranch_locations:
  assumes "\<forall>b \<in> set bs. \<forall>specifier. b = ExportWithSpecifier specifier \<longrightarrow>
             what (extractExportFromImport ext node specifier) = Star"
  shows "\<exists>ns. st_exports (fold (runBranch ext c node) bs st) = st_exports st @ ns
           \<and> st_exportLocations (fold (runBranch ext c node) bs st)
               = st_exportLocations st @ map (\<lambda>n. \<lparr>locName = n, locSpan = nodeSpan node\<rparr>) ns"
  using assms
proof (induction bs arbitrary: st)
  case Nil
  then show ?case by simp
next
  case (Cons b bs)
  from Cons.prems have hb: "\<forall>specifier. b = ExportWithSpecifier specifier \<longrightarrow>
             what (extractExportFromImport ext node specifier) = Star"
    by simp
  from runBranch_locations [OF hb, of c st] obtain ns1 where
    s1: "st_exports (runBranch ext c node b st) = st_exports st @ ns1"
    and l1: "st_exportLocations (runBranch ext c node b st)
               = st_exportLocations st @ map (\<lambda>n. \<lparr>locName = n, locSpan = nodeSpan node\<rparr>) ns1"
    by blast
  from Cons.prems have "\<forall>b \<in> set bs. \<forall>specifier. b = ExportWithSpecifier specifier \<longrightarrow>
             what (extractExportFromImport ext node specifier) = Star"
    by simp
  from Cons.IH [OF this, of "runBranch ext c node b st"] obtain ns2 where
    s2: "st_exports (fold (runBranch ext c node) bs (runBranch ext c node b st))
           = st_exports (runBranch ext c node b st) @ ns2"
    and l2: "st_exportLocations (fold (runBranch ext c node) bs (runBranch ext c node b st))
           = st_exportLocations (runBranch ext c node b st)
               @ map (\<lambda>n. \<lparr>locName = n, locSpan = nodeSpan node\<rparr>) ns2"
    by blast
  have "st_exports (fold (runBranch ext c node) (b # bs) st) = st_exports st @ (ns1 @ ns2)"
    using s1 s2 by simp
  moreover have "st_exportLocations (fold (runBranch ext c node) (b # bs) st)
      = st_exportLocations st @ map (\<lambda>n. \<lparr>locName = n, locSpan = nodeSpan node\<rparr>) (ns1 @ ns2)"
    using l1 l2 by simp
  ultimately show ?case by blast
qed

lemma extractNode_locations:
  assumes "\<forall>specifier. kind node = ExportDeclaration \<longrightarrow> moduleSpecifier node = Some specifier \<longrightarrow>
             what (extractExportFromImport ext node specifier) = Star"
  shows "\<exists>ns. st_exports (extractNode ext c node st) = st_exports st @ ns
           \<and> st_exportLocations (extractNode ext c node st)
               = st_exportLocations st @ map (\<lambda>n. \<lparr>locName = n, locSpan = nodeSpan node\<rparr>) ns"
proof -
  have "\<forall>b \<in> set (branchesTaken ext node). \<forall>specifier. b = ExportWithSpecifier specifier \<longrightarrow>
             what (extractExportFromImport ext node specifier) = Star"
    using assms by (auto simp: branchesTaken_def split: option.splits if_splits)
  from fold_runBranch_locations [OF this] show ?thesis
    by (simp add: extractNode_branches)
qed

lemma isNodeDisabledViaComment_fullText:
  "fullText f = fullText g \<Longrightarrow>
     isNodeDisabledViaComment ext node f = isNodeDisabledViaComment ext node g"
  by (simp add: isNodeDisabledViaComment_def split: option.splits list.splits prod.splits)

lemma visitNode_file:
  assumes "fullText f = fullText (c_file c)"
  shows "visitNode ext (c\<lparr>c_file := f\<rparr>) node st = visitNode ext c node st"
proof -
  have "isNodeDisabledViaComment ext node f = isNodeDisabledViaComment ext node (c_file c)"
    using assms by (rule isNodeDisabledViaComment_fullText)
  then show ?thesis by (simp add: visitNode_def extractNode_file split: sum.splits)
qed

lemma makeClosure_file:
  "makeClosure ext rootDir pth f b ps = (makeClosure ext rootDir pth f' b ps)\<lparr>c_file := f\<rparr>"
  by (simp add: makeClosure_def Let_def)

lemma makeClosure_c_file [simp]: "c_file (makeClosure ext rootDir pth f b ps) = f"
  by (simp add: makeClosure_def Let_def)

lemma mapFile_skip:
  assumes "\<And>s. visitNode ext (makeClosure ext rootDir pth \<lparr>fullText = txt, children = pre @ post\<rparr> b ps)
              node s = Inr s"
  shows "mapFile ext rootDir pth \<lparr>fullText = txt, children = pre @ node # post\<rparr> b ps
         = mapFile ext rootDir pth \<lparr>fullText = txt, children = pre @ post\<rparr> b ps"
proof -
  let ?f1 = "\<lparr>fullText = txt, children = pre @ node # post\<rparr>"
  let ?f2 = "\<lparr>fullText = txt, children = pre @ post\<rparr>"
  let ?c1 = "makeClosure ext rootDir pth ?f1 b ps"
  let ?c2 = "makeClosure ext rootDir pth ?f2 b ps"
  have c1: "?c1 = ?c2\<lparr>c_file := ?f1\<rparr>" by (rule makeClosure_file)
  have "visitNode ext ?c1 = visitNode ext ?c2"
    by (rule ext, rule ext, subst c1, rule visitNode_file) simp
  then have "forEachChild (visitNode ext ?c1) (pre @ node # post) initialState
           = forEachChild (visitNode ext ?c2) (pre @ post) initialState"
    using assms by (simp add: forEachChild_skip)
  then show ?thesis by (simp add: mapFile_def Let_def)
qed

text \<open>
  C3. When the last of the comment ranges before a statement is, as text, exactly the
  directive, the callback leaves \<open>imports\<close>, \<open>exports\<close> and \<open>exportLocations\<close> as they
  are, and \<open>mapFile\<close> gives the File it gives without that statement. With any other
  text there the statement is extracted, and the extraction does not read the source
  file, so the comment has no part in it.
\<close>

theorem directive_suppresses_statement:
  assumes "getLeadingCommentRanges ext txt (fullStart node) = Some rs"
    and "rs \<noteq> []" and "last rs = (pos, e)"
  shows "(substring txt pos e = directive \<longrightarrow>
            (\<forall>(c::Closure) st. fullText (c_file c) = txt \<longrightarrow> visitNode ext c node st = Inr st)
            \<and> (\<forall>rootDir pth pre post b ps.
                  mapFile ext rootDir pth \<lparr>fullText = txt, children = pre @ node # post\<rparr> b ps
                  = mapFile ext rootDir pth \<lparr>fullText = txt, children = pre @ post\<rparr> b ps))
         \<and> (substring txt pos e \<noteq> directive \<longrightarrow>
            (\<forall>(c::Closure) st. fullText (c_file c) = txt \<longrightarrow>
               visitNode ext c node st = Inr (extractNode ext c node st)
               \<and> (\<forall>file'. extractNode ext (c\<lparr>c_file := file'\<rparr>) node st
                             = extractNode ext c node st)))"
proof -
  have d: "isNodeDisabledViaComment ext node (c_file c)
           = Inr (substring txt pos e = directive)" if "fullText (c_file c) = txt" for c :: Closure
    using assms that isNodeDisabledViaComment_last [of ext "c_file c" node rs pos e] by simp
  have skip: "visitNode ext c node s = Inr s"
    if "substring txt pos e = directive" and "fullText (c_file c) = txt" for c :: Closure and s
    using d [OF that(2)] that(1) by (simp add: visitNode_def)
  have a: "mapFile ext rootDir pth \<lparr>fullText = txt, children = pre @ node # post\<rparr> b ps
           = mapFile ext rootDir pth \<lparr>fullText = txt, children = pre @ post\<rparr> b ps"
    if "substring txt pos e = directive" for rootDir pth pre post b ps
    by (rule mapFile_skip) (simp add: skip [OF that])
  have b: "visitNode ext c node st = Inr (extractNode ext c node st)"
    if "substring txt pos e \<noteq> directive" and "fullText (c_file c) = txt" for c :: Closure and st
    using d [OF that(2)] that(1) by (simp add: visitNode_def)
  from skip a b show ?thesis by (simp add: extractNode_file)
qed

text \<open>
  An exported statement under the directive contributes nothing; under the directive
  followed by one space it is extracted and exports \<open>a\<close>.
\<close>

theorem directive_suppresses_statement_witness:
  "getLeadingCommentRanges sample_ext src_off (fullStart node_off) = Some [(0, 38)]
   \<and> substring src_off 0 38 = directive
   \<and> visitNode sample_ext (sample_closure ''/proj/off.ts'' file_off) node_off initialState
       = Inr initialState
   \<and> mapFile sample_ext ''/proj'' ''/proj/off.ts'' \<lparr>fullText = src_off, children = [node_off]\<rparr>
         None None
       = mapFile sample_ext ''/proj'' ''/proj/off.ts'' \<lparr>fullText = src_off, children = []\<rparr>
           None None
   \<and> getLeadingCommentRanges sample_ext src_near (fullStart node_near) = Some [(0, 39)]
   \<and> substring src_near 0 39 \<noteq> directive
   \<and> visitNode sample_ext (sample_closure ''/proj/near.ts'' file_near) node_near initialState
       = Inr (extractNode sample_ext (sample_closure ''/proj/near.ts'' file_near) node_near
                initialState)
   \<and> st_exports (extractNode sample_ext (sample_closure ''/proj/near.ts'' file_near) node_near
                initialState) = [''a'']"
proof -
  let ?c = "sample_closure ''/proj/off.ts'' file_off"
  let ?d = "sample_closure ''/proj/near.ts'' file_near"
  have r1: "getLeadingCommentRanges sample_ext src_off (fullStart node_off) = Some [(0, 38)]"
    by code_simp
  have t1: "substring src_off 0 38 = directive" by code_simp
  have r2: "getLeadingCommentRanges sample_ext src_near (fullStart node_near) = Some [(0, 39)]"
    by code_simp
  have t2: "substring src_near 0 39 \<noteq> directive" by code_simp
  have x: "st_exports (extractNode sample_ext ?d node_near initialState) = [''a'']"
    by code_simp
  have n: "[(0::nat, 38::nat)] \<noteq> []" "[(0::nat, 39::nat)] \<noteq> []" by simp_all
  have l: "last [(0::nat, 38::nat)] = (0, 38)" "last [(0::nat, 39::nat)] = (0, 39)" by simp_all
  have fc: "fullText (c_file ?c) = src_off" by (simp add: file_off_def)
  have fd: "fullText (c_file ?d) = src_near" by (simp add: file_near_def)
  note off = directive_suppresses_statement [OF r1 n(1) l(1)]
  note near = directive_suppresses_statement [OF r2 n(2) l(2)]
  from off t1 fc have v1: "visitNode sample_ext ?c node_off initialState = Inr initialState"
    by blast
  from off t1 have "mapFile sample_ext ''/proj'' ''/proj/off.ts''
        \<lparr>fullText = src_off, children = [] @ node_off # []\<rparr> None None
      = mapFile sample_ext ''/proj'' ''/proj/off.ts''
        \<lparr>fullText = src_off, children = [] @ []\<rparr> None None"
    by blast
  then have m1: "mapFile sample_ext ''/proj'' ''/proj/off.ts''
        \<lparr>fullText = src_off, children = [node_off]\<rparr> None None
      = mapFile sample_ext ''/proj'' ''/proj/off.ts''
        \<lparr>fullText = src_off, children = []\<rparr> None None"
    by simp
  from near t2 fd have v2: "visitNode sample_ext ?d node_near initialState
      = Inr (extractNode sample_ext ?d node_near initialState)"
    by blast
  from r1 t1 v1 m1 r2 t2 v2 x show ?thesis by simp
qed

















text \<open>
  C7. A statement that is not disabled runs the branches of \<open>branchesTaken\<close>, in order.
  At most one of them is one of the four classified branches, chosen by the first test
  that holds; the scan for dynamic imports and the export-modifier branch run only when
  none of the four does, and both run for a statement of another kind that may contain a
  dynamic import and has the export modifier.
\<close>

theorem dispatch_branches:
  "(isNodeDisabledViaComment ext node (c_file c) = Inr False \<longrightarrow>
      visitNode ext c node st = Inr (fold (runBranch ext c node) (branchesTaken ext node) st))
   \<and> length (filter classifying (branchesTaken ext node)) \<le> 1
   \<and> (DynamicImportScan \<in> set (branchesTaken ext node)
        \<or> ExportModifier \<in> set (branchesTaken ext node)
      \<longrightarrow> filter classifying (branchesTaken ext node) = [])
   \<and> (kind node = ImportDeclaration \<longrightarrow> branchesTaken ext node = [PlainImport])
   \<and> (kind node = ExportAssignment \<longrightarrow> branchesTaken ext node = [ExportByAssignment])
   \<and> (kind node = ExportDeclaration \<and> moduleSpecifier node = None
      \<longrightarrow> branchesTaken ext node = [ExportWithoutSpecifier])
   \<and> (\<forall>specifier. kind node = ExportDeclaration \<and> moduleSpecifier node = Some specifier
      \<longrightarrow> branchesTaken ext node = [ExportWithSpecifier specifier])
   \<and> (kind node \<notin> {ImportDeclaration, ExportAssignment, ExportDeclaration}
        \<and> mayContainDynamicImports ext node \<and> truthy_bool (hasModifier node ExportKeyword)
      \<longrightarrow> branchesTaken ext node = [DynamicImportScan, ExportModifier])"
proof -
  have a: "isNodeDisabledViaComment ext node (c_file c) = Inr False \<longrightarrow>
      visitNode ext c node st = Inr (fold (runBranch ext c node) (branchesTaken ext node) st)"
    by (simp add: visitNode_enabled extractNode_branches)
  have b: "length (filter classifying (branchesTaken ext node)) \<le> 1"
    by (rule branchesTaken_at_most_one)
  have c: "DynamicImportScan \<in> set (branchesTaken ext node)
        \<or> ExportModifier \<in> set (branchesTaken ext node)
      \<longrightarrow> filter classifying (branchesTaken ext node) = []"
    using branchesTaken_exclusive by blast
  have d: "kind node = ImportDeclaration \<longrightarrow> branchesTaken ext node = [PlainImport]"
    "kind node = ExportAssignment \<longrightarrow> branchesTaken ext node = [ExportByAssignment]"
    "kind node = ExportDeclaration \<and> moduleSpecifier node = None
      \<longrightarrow> branchesTaken ext node = [ExportWithoutSpecifier]"
    "\<forall>specifier. kind node = ExportDeclaration \<and> moduleSpecifier node = Some specifier
      \<longrightarrow> branchesTaken ext node = [ExportWithSpecifier specifier]"
    "kind node \<notin> {ImportDeclaration, ExportAssignment, ExportDeclaration}
        \<and> mayContainDynamicImports ext node \<and> truthy_bool (hasModifier node ExportKeyword)
      \<longrightarrow> branchesTaken ext node = [DynamicImportScan, ExportModifier]"
    by (simp_all add: branchesTaken_def)
  from a b c d show ?thesis by blast
qed

text \<open>
  An exported variable statement that holds a dynamic import runs both branches and
  registers the import of \<open>m\<close> and the export \<open>y\<close>.
\<close>

theorem dispatch_branches_witness:
  "isNodeDisabledViaComment sample_ext node_dyn (c_file (sample_closure ''/proj/dyn.ts'' file_dyn))
     = Inr False
   \<and> kind node_dyn \<notin> {ImportDeclaration, ExportAssignment, ExportDeclaration}
   \<and> mayContainDynamicImports sample_ext node_dyn
   \<and> truthy_bool (hasModifier node_dyn ExportKeyword)
   \<and> branchesTaken sample_ext node_dyn = [DynamicImportScan, ExportModifier]
   \<and> filter classifying (branchesTaken sample_ext node_dyn) = []
   \<and> map_sum id (\<lambda>s. (st_imports s ''m'', st_exports s))
        (visitNode sample_ext (sample_closure ''/proj/dyn.ts'' file_dyn) node_dyn initialState)
       = Inr (Some [], [''y''])"
proof -
  let ?c = "sample_closure ''/proj/dyn.ts'' file_dyn"
  have h1: "isNodeDisabledViaComment sample_ext node_dyn (c_file ?c) = Inr False" by code_simp
  have h2: "kind node_dyn \<notin> {ImportDeclaration, ExportAssignment, ExportDeclaration}"
    by (simp add: node_dyn_def)
  have h3: "mayContainDynamicImports sample_ext node_dyn" by code_simp
  have h4: "truthy_bool (hasModifier node_dyn ExportKeyword)" by code_simp
  have r: "map_sum id (\<lambda>s. (st_imports s ''m'', st_exports s))
        (Inr (fold (runBranch sample_ext ?c node_dyn) [DynamicImportScan, ExportModifier]
               initialState) :: error + MapState)
       = Inr (Some [], [''y''])"
    by code_simp
  from dispatch_branches [of sample_ext node_dyn ?c initialState] h1 h2 h3 h4 r
  show ?thesis by simp
qed

text \<open>
  C10 (as amended). For an export declaration with a module specifier that re-exports
  names, the callback appends nothing to \<open>exportLocations\<close>; it appends the names to
  \<open>exports\<close> when \<open>addImport\<close> returns a non-empty key and nothing otherwise. Every
  other statement gets one location for each export it appends.
\<close>

theorem named_reexport_no_locations:
  assumes "isNodeDisabledViaComment ext node (c_file c) = Inr False"
    and "kind node = ExportDeclaration"
    and "moduleSpecifier node = Some specifier"
    and "what (extractExportFromImport ext node specifier) = Names ws"
    and "addImportCore ext (extractExportFromImport ext node specifier) (c_rootDir c) (c_path c)
           (st_imports st) (c_tsconfigPathsMatcher c) (c_baseDir c) (c_baseUrl c)
         = (key, imports')"
  shows "(\<exists>st'. visitNode ext c node st = Inr st'
            \<and> st_exportLocations st' = st_exportLocations st
            \<and> st_exports st' = st_exports st @ (if truthy_string key then ws else []))
         \<and> (\<forall>n s. (\<forall>sp. kind n = ExportDeclaration \<longrightarrow> moduleSpecifier n = Some sp \<longrightarrow>
                        what (extractExportFromImport ext n sp) = Star) \<longrightarrow>
                (\<exists>ns. st_exports (extractNode ext c n s) = st_exports s @ ns
                    \<and> st_exportLocations (extractNode ext c n s)
                        = st_exportLocations s
                            @ map (\<lambda>x. \<lparr>locName = x, locSpan = nodeSpan n\<rparr>) ns))"
proof -
  let ?fw = "extractExportFromImport ext node specifier"
  have ai: "addImport ext c ?fw st = (key, st\<lparr>st_imports := imports'\<rparr>)"
    using assms(5) by (simp add: addImport_def)
  have "visitNode ext c node st = Inr (exportFromBranch ext c node specifier st)"
    using assms(1,2,3) by (simp add: visitNode_enabled extractNode_exportFrom)
  also have "exportFromBranch ext c node specifier st
             = (if truthy_string key
                then (st\<lparr>st_imports := imports'\<rparr>)
                       \<lparr>st_exports := st_exports (st\<lparr>st_imports := imports'\<rparr>) @ ws\<rparr>
                else st\<lparr>st_imports := imports'\<rparr>)"
    using assms(4) ai by (rule exportFromBranch_names)
  finally have named: "\<exists>st'. visitNode ext c node st = Inr st'
            \<and> st_exportLocations st' = st_exportLocations st
            \<and> st_exports st' = st_exports st @ (if truthy_string key then ws else [])"
    by simp
  have others: "\<exists>ns. st_exports (extractNode ext c n s) = st_exports s @ ns
                    \<and> st_exportLocations (extractNode ext c n s)
                        = st_exportLocations s
                            @ map (\<lambda>x. \<lparr>locName = x, locSpan = nodeSpan n\<rparr>) ns"
    if "\<forall>sp. kind n = ExportDeclaration \<longrightarrow> moduleSpecifier n = Some sp \<longrightarrow>
                        what (extractExportFromImport ext n sp) = Star" for n s
    using that by (rule extractNode_locations)
  from named others show ?thesis by blast
qed

text \<open>
  The statement \<^verbatim>\<open>export { x } from './m'\<close> leaves \<open>x\<close> in \<open>exports\<close> and no location.
\<close>

theorem named_reexport_no_locations_witness:
  "isNodeDisabledViaComment sample_ext node_named
      (c_file (sample_closure ''/proj/named.ts'' file_named)) = Inr False
   \<and> kind node_named = ExportDeclaration
   \<and> moduleSpecifier node_named = Some (quoted ''./m'')
   \<and> what (extractExportFromImport sample_ext node_named (quoted ''./m'')) = Names [''x'']
   \<and> (\<exists>st'. visitNode sample_ext (sample_closure ''/proj/named.ts'' file_named) node_named
               initialState = Inr st'
            \<and> st_exportLocations st' = []
            \<and> st_exports st' = [''x''])"
proof -
  let ?c = "sample_closure ''/proj/named.ts'' file_named"
  let ?fw = "extractExportFromImport sample_ext node_named (quoted ''./m'')"
  have h1: "isNodeDisabledViaComment sample_ext node_named (c_file ?c) = Inr False" by code_simp
  have h2: "kind node_named = ExportDeclaration" by (simp add: node_named_def)
  have h3: "moduleSpecifier node_named = Some (quoted ''./m'')" by (simp add: node_named_def)
  have h4: "what ?fw = Names [''x'']" by code_simp
  have h5: "addImportCore sample_ext ?fw (c_rootDir ?c) (c_path ?c) (st_imports initialState)
              (c_tsconfigPathsMatcher ?c) (c_baseDir ?c) (c_baseUrl ?c)
            = (Some ''m'', (st_imports initialState)(''m'' \<mapsto> [''x'']))"
    by (simp add: sample_ext_def addImportCore_spec_def sample_resolveKey_def quoted_def
          unquote_def node_named_def src_named_def whatNames_def initialState_def)
  from named_reexport_no_locations [OF h1 h2 h3 h4 h5] have
    "\<exists>st'. visitNode sample_ext ?c node_named initialState = Inr st'
            \<and> st_exportLocations st' = st_exportLocations initialState
            \<and> st_exports st' = st_exports initialState
                 @ (if truthy_string (Some ''m'') then [''x''] else [])"
    by blast
  then have "\<exists>st'. visitNode sample_ext ?c node_named initialState = Inr st'
            \<and> st_exportLocations st' = [] \<and> st_exports st' = [''x'']"
    by (simp add: initialState_def truthy_string_def)
  with h1 h2 h3 h4 show ?thesis by simp
qed

text \<open>
  C10 as stated fails when the specifier has no key: for
  \<^verbatim>\<open>export { x } from 'lodash'\<close> the name is not appended and \<open>exports\<close> stays as
  short as \<open>exportLocations\<close>.
\<close>

theorem named_reexport_unresolved_counterexample:
  "kind node_lodash = ExportDeclaration
   \<and> moduleSpecifier node_lodash = Some (quoted ''lodash'')
   \<and> what (extractExportFromImport sample_ext node_lodash (quoted ''lodash'')) = Names [''x'']
   \<and> map_sum id (\<lambda>s. (st_exports s, st_exportLocations s))
        (visitNode sample_ext (sample_closure ''/proj/lodash.ts'' file_lodash) node_lodash
           initialState)
       = Inr ([], [])"
  by code_simp

end
